theory Spec2Isabelle
  imports Main
begin

section \<open>The execution environment of agent\_ide\<close>

text \<open>
  A shallow embedding of \<^verbatim>\<open>agent_ide/core/agent.py\<close> and
  \<^verbatim>\<open>agent_ide/core/execution.py\<close>.

  Conventions of the embedding.
  \<^item> Python objects that are mutated in place (the agent, the environment) are passed in
    and returned updated. A function that may raise returns its outcome together with the
    state it leaves behind, since a mutation made before the raise persists.
  \<^item> \<^verbatim>\<open>datetime.now()\<close> is a read of a clock: \<open>now k\<close> is the value of the
    \<open>k\<close>-th read, and every function threads the number of reads made so far.
    A \<^verbatim>\<open>datetime\<close> is a number of microseconds; a \<^verbatim>\<open>timedelta\<close> too.
  \<^item> The worker thread of a run executes \<^verbatim>\<open>_run_agent\<close>. What other threads do to it
    is given by parameters: \<open>stop_event i\<close> is what \<^verbatim>\<open>stop_event.is_set()\<close> returns at
    the check of loop index \<open>i\<close>, and \<open>work i\<close> is the outcome of the work of loop index
    \<open>i\<close> (in the source \<^verbatim>\<open>time.sleep(0.1)\<close>, a stand-in for the work of the agent):
    \<open>None\<close> when it returns, \<open>Some m\<close> when it raises an exception \<open>e\<close> derived from
    \<^verbatim>\<open>Exception\<close> with \<^verbatim>\<open>str(e)\<close> equal to \<open>m\<close>.
  \<^item> Strings are ASCII text.
  \<^item> Names that Isabelle does not admit are changed: the field \<^verbatim>\<open>id\<close> of an agent is
    \<open>ident\<close>, the field \<^verbatim>\<open>output\<close> of a result is \<open>output_text\<close>, and the leading
    underscore of \<^verbatim>\<open>_run_agent\<close> and
    \<^verbatim>\<open>_execute_agent_code\<close> is dropped.
\<close>

subsection \<open>agent.py\<close>

type_synonym datetime = int
type_synonym clock = "nat \<Rightarrow> datetime"

record AgentConfig =
  name :: string
  description :: "string option"
  agent_type :: string
  parameters :: "(string \<times> string) list"
  capabilities :: "string list"
  model :: "string option"
  max_iterations :: int
  timeout :: int

record AgentState =
  status :: string
  current_task :: "string option"
  iteration_count :: int
  start_time :: "datetime option"
  end_time :: "datetime option"
  error_message :: "string option"

record Agent =
  ident :: string
  config :: AgentConfig
  state :: AgentState
  code :: string
  created_at :: datetime
  updated_at :: datetime

text \<open>The defaults of the class \<^verbatim>\<open>AgentState\<close>.\<close>

definition AgentState_default :: AgentState where
  "AgentState_default =
     \<lparr>status = ''idle'', current_task = None, iteration_count = 0,
      start_time = None, end_time = None, error_message = None\<rparr>"

text \<open>
  One keyword argument of \<^verbatim>\<open>update_state\<close>. \<open>Unknown k\<close> is a keyword for which
  \<^verbatim>\<open>hasattr(self.state, k)\<close> is false: it is skipped.
\<close>

datatype kwarg =
    Status string
  | Current_task "string option"
  | Iteration_count int
  | Start_time "datetime option"
  | End_time "datetime option"
  | Error_message "string option"
  | Unknown string

fun setattr_state :: "AgentState \<Rightarrow> kwarg \<Rightarrow> AgentState" where
  "setattr_state s (Status v) = s\<lparr>status := v\<rparr>"
| "setattr_state s (Current_task v) = s\<lparr>current_task := v\<rparr>"
| "setattr_state s (Iteration_count v) = s\<lparr>iteration_count := v\<rparr>"
| "setattr_state s (Start_time v) = s\<lparr>start_time := v\<rparr>"
| "setattr_state s (End_time v) = s\<lparr>end_time := v\<rparr>"
| "setattr_state s (Error_message v) = s\<lparr>error_message := v\<rparr>"
| "setattr_state s (Unknown k) = s"

text \<open>\<^verbatim>\<open>Agent.update_state\<close>: the keywords in order, then one read of the clock.\<close>

definition update_state :: "clock \<Rightarrow> kwarg list \<Rightarrow> Agent \<Rightarrow> nat \<Rightarrow> Agent \<times> nat" where
  "update_state now kwargs agent t =
     (agent\<lparr>state := foldl setattr_state (state agent) kwargs, updated_at := now t\<rparr>, Suc t)"

definition is_running :: "Agent \<Rightarrow> bool" where
  "is_running agent = (status (state agent) = ''running'')"

definition reset :: "clock \<Rightarrow> Agent \<Rightarrow> nat \<Rightarrow> Agent \<times> nat" where
  "reset now agent t = (agent\<lparr>state := AgentState_default, updated_at := now t\<rparr>, Suc t)"

subsection \<open>execution.py: data\<close>

record ExecutionResult =
  agent_id :: string
  success :: bool
  output_text :: "string option"
  error :: "string option"
  duration :: int
  iterations :: int

text \<open>
  A \<^verbatim>\<open>threading.Thread\<close> as the environment sees it: its name and whether
  \<^verbatim>\<open>start\<close> was called. A \<^verbatim>\<open>threading.Event\<close> is its flag.
\<close>

record Thread =
  thread_name :: string
  started :: bool

datatype log_level = WARNING | ERROR

record ExecutionEnvironment =
  running_agents :: "string \<rightharpoonup> Thread"
  results :: "string \<rightharpoonup> ExecutionResult"
  logger :: "(log_level \<times> string) list"
  stop_events :: "string \<rightharpoonup> bool"

text \<open>The exceptions that the methods of the environment raise to their caller.\<close>

datatype exn = RuntimeError string | KeyError string

text \<open>\<^verbatim>\<open>ExecutionEnvironment.__init__\<close>.\<close>

definition ExecutionEnvironment_init :: ExecutionEnvironment where
  "ExecutionEnvironment_init =
     \<lparr>running_agents = Map.empty, results = Map.empty, logger = [], stop_events = Map.empty\<rparr>"

definition log_msg :: "log_level \<Rightarrow> string \<Rightarrow> ExecutionEnvironment \<Rightarrow> ExecutionEnvironment" where
  "log_msg lvl msg env = env\<lparr>logger := logger env @ [(lvl, msg)]\<rparr>"

subsection \<open>Strings: formatting an integer, stripping white space\<close>

fun str_nat :: "nat \<Rightarrow> string" where
  "str_nat n =
     (if n < 10 then [''0123456789'' ! n]
      else str_nat (n div 10) @ [''0123456789'' ! (n mod 10)])"

declare str_nat.simps [simp del]

definition str_int :: "int \<Rightarrow> string" where
  "str_int i = (if i < 0 then CHR ''-'' # str_nat (nat (- i)) else str_nat (nat i))"

text \<open>\<^verbatim>\<open>str.isspace\<close> on an ASCII character: 9 to 13, 28 to 31 and the blank.\<close>

definition isspace :: "char \<Rightarrow> bool" where
  "isspace c =
     (let k = (of_char c :: nat) in (9 \<le> k \<and> k \<le> 13) \<or> (28 \<le> k \<and> k \<le> 32))"

definition strip :: "string \<Rightarrow> string" where
  "strip s = rev (dropWhile isspace (rev (dropWhile isspace s)))"

subsection \<open>execution.py: the methods of the environment\<close>

text \<open>
  \<^verbatim>\<open>execute_agent\<close>. The new thread runs \<open>run_agent\<close> below on the agent, the callback
  and the new event; the caller gets the id of the agent back.
\<close>

definition execute_agent ::
  "clock \<Rightarrow> ExecutionEnvironment \<Rightarrow> Agent \<Rightarrow> nat
     \<Rightarrow> (exn + string) \<times> ExecutionEnvironment \<times> Agent \<times> nat" where
  "execute_agent now env agent t =
     (if is_running agent
      then (Inl (RuntimeError (''Agent '' @ ident agent @ '' is already running'')),
            env, agent, t)
      else
        let env1 = env\<lparr>stop_events := (stop_events env)(ident agent \<mapsto> False)\<rparr>;
            thread = \<lparr>thread_name = ''agent-'' @ ident agent, started = False\<rparr>;
            env2 = env1\<lparr>running_agents := (running_agents env1)(ident agent \<mapsto> thread)\<rparr>;
            (agent1, t1) =
               update_state now
                 [Status ''running'', Start_time (Some (now t)), Iteration_count 0]
                 agent (Suc t);
            env3 = env2\<lparr>running_agents :=
                     (running_agents env2)(ident agent \<mapsto> thread\<lparr>started := True\<rparr>)\<rparr>
        in (Inr (ident agent), env3, agent1, t1))"

text \<open>
  \<^verbatim>\<open>stop_agent\<close>. The parameter \<open>join\<close> is what happens during
  \<^verbatim>\<open>thread.join(timeout=5.0)\<close>: what the joined thread does to the environment in that
  time, and the value of \<^verbatim>\<open>thread.is_alive()\<close> after it.
\<close>

type_synonym join = "ExecutionEnvironment \<Rightarrow> ExecutionEnvironment \<times> bool"

definition stop_agent ::
  "join \<Rightarrow> ExecutionEnvironment \<Rightarrow> string \<Rightarrow> (exn + bool) \<times> ExecutionEnvironment" where
  "stop_agent join env aid =
     (if running_agents env aid = None then (Inr False, env)
      else
        let env1 = (if stop_events env aid \<noteq> None
                    then env\<lparr>stop_events := (stop_events env)(aid \<mapsto> True)\<rparr> else env);
            (env2, is_alive) = join env1
        in if is_alive
           then (Inr False,
                 log_msg WARNING (''Agent '' @ aid @ '' did not stop gracefully'') env2)
           else if running_agents env2 aid = None then (Inl (KeyError aid), env2)
           else
             let env3 = env2\<lparr>running_agents := (running_agents env2)(aid := None)\<rparr>;
                 env4 = (if stop_events env3 aid \<noteq> None
                         then env3\<lparr>stop_events := (stop_events env3)(aid := None)\<rparr>
                         else env3)
             in (Inr True, env4))"

definition get_result :: "ExecutionEnvironment \<Rightarrow> string \<Rightarrow> ExecutionResult option" where
  "get_result env aid = results env aid"

definition is_running_env :: "ExecutionEnvironment \<Rightarrow> string \<Rightarrow> bool" where
  "is_running_env env aid = (running_agents env aid \<noteq> None)"

subsection \<open>execution.py: the run of one agent\<close>

text \<open>
  The loop of \<^verbatim>\<open>_execute_agent_code\<close> over the indices that are left. The result is
  \<open>None\<close> when the loop ends, \<open>Some (Inr s)\<close> when it returns \<open>s\<close>, and \<open>Some (Inl m)\<close>
  when the work raises; the agent is returned as the loop leaves it.
\<close>

fun for_loop ::
  "clock \<Rightarrow> (nat \<Rightarrow> bool) \<Rightarrow> (nat \<Rightarrow> string option) \<Rightarrow> nat list \<Rightarrow> Agent \<Rightarrow> nat
     \<Rightarrow> (string + string) option \<times> Agent \<times> nat" where
  "for_loop now stop_event work [] agent t = (None, agent, t)"
| "for_loop now stop_event work (i # rest) agent t =
     (if stop_event i
      then (Some (Inr (''Execution stopped at iteration '' @ str_int (int i))), agent, t)
      else
        let (agent1, t1) = update_state now [Iteration_count (int i + 1)] agent t
        in case work i of
             Some m \<Rightarrow> (Some (Inl m), agent1, t1)
           | None \<Rightarrow> for_loop now stop_event work rest agent1 t1)"

definition execute_agent_code ::
  "clock \<Rightarrow> (nat \<Rightarrow> bool) \<Rightarrow> (nat \<Rightarrow> string option) \<Rightarrow> Agent \<Rightarrow> nat
     \<Rightarrow> (string + string) \<times> Agent \<times> nat" where
  "execute_agent_code now stop_event work agent t =
     (if strip (code agent) = [] then (Inr ''No code to execute'', agent, t)
      else
        let n = max_iterations (config agent)
        in case for_loop now stop_event work [0..<nat n] agent t of
             (Some r, agent1, t1) \<Rightarrow> (r, agent1, t1)
           | (None, agent1, t1) \<Rightarrow>
               (Inr (''Agent executed successfully for '' @ str_int n @ '' iterations''),
                agent1, t1))"

text \<open>
  The observer of a run (the parameter \<^verbatim>\<open>callback\<close>). It is called with the agent and
  the result; it may read the environment, it has a state of its own, and it may raise
  (\<open>Some m\<close>, for an exception \<open>e\<close> derived from \<^verbatim>\<open>Exception\<close> with \<^verbatim>\<open>str(e)\<close> equal
  to \<open>m\<close>).
\<close>

type_synonym 'o callback =
  "ExecutionEnvironment \<Rightarrow> Agent \<Rightarrow> ExecutionResult \<Rightarrow> 'o \<Rightarrow> 'o \<times> string option"

text \<open>
  The \<^verbatim>\<open>try\<close> and \<^verbatim>\<open>except\<close> blocks of \<^verbatim>\<open>_run_agent\<close> (lines 100 to 125): the
  result so far, with the environment, the agent and the clock.
\<close>

definition run_agent_try ::
  "clock \<Rightarrow> (nat \<Rightarrow> bool) \<Rightarrow> (nat \<Rightarrow> string option) \<Rightarrow> ExecutionEnvironment \<Rightarrow> Agent \<Rightarrow> nat
     \<Rightarrow> ExecutionResult \<times> ExecutionEnvironment \<times> Agent \<times> nat" where
  "run_agent_try now stop_event work env agent t =
     (let result = \<lparr>agent_id = ident agent, success = False, output_text = None, error = None,
                    duration = 0, iterations = 0\<rparr>
      in case execute_agent_code now stop_event work agent t of
           (Inr out, agent1, t1) \<Rightarrow>
             let result1 = result\<lparr>success := True, output_text := Some out,
                                  iterations := iteration_count (state agent1)\<rparr>;
                 (agent2, t2) =
                    update_state now [Status ''completed'', End_time (Some (now t1))]
                      agent1 (Suc t1)
             in (result1, env, agent2, t2)
         | (Inl error_msg, agent1, t1) \<Rightarrow>
             let env1 = log_msg ERROR
                          (''Agent '' @ ident agent @ '' failed: '' @ error_msg) env;
                 result1 = result\<lparr>error := Some error_msg\<rparr>;
                 (agent2, t2) =
                    update_state now
                      [Status ''error'', Error_message (Some error_msg),
                       End_time (Some (now t1))]
                      agent1 (Suc t1)
             in (result1, env1, agent2, t2))"

text \<open>
  The \<^verbatim>\<open>finally\<close> block up to the clean-up (lines 128 to 136): the result gets its
  duration and is stored, the thread and the event are taken out of the registries.
\<close>

definition run_agent_store ::
  "clock \<Rightarrow> datetime \<Rightarrow> ExecutionResult \<Rightarrow> ExecutionEnvironment \<Rightarrow> Agent \<Rightarrow> nat
     \<Rightarrow> ExecutionResult \<times> ExecutionEnvironment \<times> nat" where
  "run_agent_store now start result env agent t =
     (let ended = now t;
          result1 = result\<lparr>duration := ended - start\<rparr>;
          env1 = env\<lparr>results := (results env)(ident agent \<mapsto> result1)\<rparr>;
          env2 = (if running_agents env1 (ident agent) \<noteq> None
                  then env1\<lparr>running_agents := (running_agents env1)(ident agent := None)\<rparr>
                  else env1);
          env3 = (if stop_events env2 (ident agent) \<noteq> None
                  then env2\<lparr>stop_events := (stop_events env2)(ident agent := None)\<rparr>
                  else env2)
      in (result1, env3, Suc t))"

text \<open>The call of the callback, in its own \<^verbatim>\<open>try\<close> (lines 139 to 143).\<close>

definition run_agent_callback ::
  "'o callback option \<Rightarrow> ExecutionResult \<Rightarrow> ExecutionEnvironment \<Rightarrow> Agent \<Rightarrow> 'o
     \<Rightarrow> ExecutionEnvironment \<times> 'o" where
  "run_agent_callback callback result env agent obs =
     (case callback of
        None \<Rightarrow> (env, obs)
      | Some cb \<Rightarrow>
          (case cb env agent result obs of
             (obs1, None) \<Rightarrow> (env, obs1)
           | (obs1, Some e) \<Rightarrow>
               (log_msg ERROR
                  (''Callback failed for agent '' @ ident agent @ '': '' @ e) env, obs1)))"

text \<open>\<^verbatim>\<open>_run_agent\<close>, the body of the worker thread.\<close>

definition run_agent ::
  "clock \<Rightarrow> (nat \<Rightarrow> bool) \<Rightarrow> (nat \<Rightarrow> string option) \<Rightarrow> ExecutionEnvironment \<Rightarrow> Agent
     \<Rightarrow> 'o callback option \<Rightarrow> 'o \<Rightarrow> nat \<Rightarrow> ExecutionEnvironment \<times> Agent \<times> 'o \<times> nat" where
  "run_agent now stop_event work env agent callback obs t =
     (let start = now t;
          (result, env1, agent1, t1) = run_agent_try now stop_event work env agent (Suc t);
          (result1, env2, t2) = run_agent_store now start result env1 agent1 t1;
          (env3, obs1) = run_agent_callback callback result1 env2 agent1 obs
      in (env3, agent1, obs1, t2))"

subsection \<open>A run from its start to its end\<close>

text \<open>
  \<^verbatim>\<open>execute_agent\<close> followed by the whole run of the thread it starts. Every write of
  \<^verbatim>\<open>execute_agent\<close> to the agent and to the environment comes before
  \<^verbatim>\<open>thread.start()\<close>, so the thread finds them as \<^verbatim>\<open>execute_agent\<close> returns them.
\<close>

definition execute_and_run ::
  "clock \<Rightarrow> (nat \<Rightarrow> bool) \<Rightarrow> (nat \<Rightarrow> string option) \<Rightarrow> ExecutionEnvironment \<Rightarrow> Agent
     \<Rightarrow> 'o callback option \<Rightarrow> 'o \<Rightarrow> nat
     \<Rightarrow> (exn + string) \<times> ExecutionEnvironment \<times> Agent \<times> 'o \<times> nat" where
  "execute_and_run now stop_event work env agent callback obs t =
     (case execute_agent now env agent t of
        (Inl e, env1, agent1, t1) \<Rightarrow> (Inl e, env1, agent1, obs, t1)
      | (Inr uid, env1, agent1, t1) \<Rightarrow>
          (case run_agent now stop_event work env1 agent1 callback obs t1 of
             (env2, agent2, obs2, t2) \<Rightarrow> (Inr uid, env2, agent2, obs2, t2)))"

text \<open>
  The result object of \<^verbatim>\<open>_run_agent\<close> as line 129 leaves it: what the run stores and
  hands to the callback.
\<close>

definition produced_result ::
  "clock \<Rightarrow> (nat \<Rightarrow> bool) \<Rightarrow> (nat \<Rightarrow> string option) \<Rightarrow> ExecutionEnvironment \<Rightarrow> Agent \<Rightarrow> nat
     \<Rightarrow> ExecutionResult" where
  "produced_result now stop_event work env agent t =
     (case run_agent_try now stop_event work env agent (Suc t) of
        (result, env1, agent1, t1) \<Rightarrow> fst (run_agent_store now (now t) result env1 agent1 t1))"

text \<open>
  The iteration counter of the agent after the first \<open>m\<close> rounds of the loop of
  \<^verbatim>\<open>_execute_agent_code\<close> (fewer when the loop has left before).
\<close>

definition counter_after ::
  "clock \<Rightarrow> (nat \<Rightarrow> bool) \<Rightarrow> (nat \<Rightarrow> string option) \<Rightarrow> Agent \<Rightarrow> nat \<Rightarrow> nat \<Rightarrow> int" where
  "counter_after now stop_event work agent t m =
     iteration_count (state (fst (snd
       (for_loop now stop_event work (take m [0..<nat (max_iterations (config agent))])
          agent t))))"

subsection \<open>What a join can see\<close>

text \<open>
  Two instances of the parameter \<open>join\<close> of \<open>stop_agent\<close>. In \<open>join_timeout\<close> the
  thread does nothing in the five seconds and is alive after them. In \<open>join_unit\<close> the
  thread is the worker of the agent: it sees the event as the environment holds it, runs
  \<open>run_agent\<close> to its end and is not alive any more.
\<close>

definition join_timeout :: join where
  "join_timeout env = (env, True)"

definition join_unit ::
  "clock \<Rightarrow> (nat \<Rightarrow> string option) \<Rightarrow> Agent \<Rightarrow> 'o callback option \<Rightarrow> 'o \<Rightarrow> nat \<Rightarrow> join" where
  "join_unit now work agent callback obs t env =
     (fst (run_agent now (\<lambda>i. stop_events env (ident agent) = Some True) work env agent
             callback obs t),
      False)"

subsection \<open>The environments that calls can reach\<close>

text \<open>
  \<open>reach env finished obs\<close>: the environment \<open>env\<close> comes from a new one by calls of
  \<^verbatim>\<open>execute_agent\<close> and \<^verbatim>\<open>stop_agent\<close> and by runs of worker threads, \<open>finished\<close>
  holds the ids of the agents of which a run has come to its end, and \<open>obs\<close> is a state
  of the observers.
\<close>

inductive reach :: "ExecutionEnvironment \<Rightarrow> string set \<Rightarrow> 'o \<Rightarrow> bool" where
  reach_init: "reach ExecutionEnvironment_init {} obs"
| reach_execute:
    "reach env finished obs \<Longrightarrow> execute_agent now env agent t = (r, env1, agent1, t1)
       \<Longrightarrow> reach env1 finished obs"
| reach_run:
    "reach env finished obs
       \<Longrightarrow> run_agent now stop_event work env agent callback obs t = (env1, agent1, obs1, t1)
       \<Longrightarrow> reach env1 (insert (ident agent) finished) obs1"
| reach_stop:
    "reach env finished obs \<Longrightarrow> stop_agent (\<lambda>e. (e, alive)) env aid = (r, env1)
       \<Longrightarrow> reach env1 finished obs"
| reach_stop_unit:
    "reach env finished obs
       \<Longrightarrow> stop_agent (join_unit now work agent callback obs t) env (ident agent) = (r, env1)
       \<Longrightarrow> reach env1 (insert (ident agent) finished) obs"

subsection \<open>Example values\<close>

text \<open>An agent as \<^verbatim>\<open>Agent(config=AgentConfig(name="demo", max_iterations=n), code=c)\<close>
  makes it, with the id \<^verbatim>\<open>a1\<close>; a clock that advances by one at each read; events and
  work for the examples.\<close>

definition demo_agent :: "string \<Rightarrow> int \<Rightarrow> Agent" where
  "demo_agent c n =
     \<lparr>ident = ''a1'',
      config = \<lparr>name = ''demo'', description = None, agent_type = ''general'',
                parameters = [], capabilities = [], model = None,
                max_iterations = n, timeout = 300\<rparr>,
      state = AgentState_default, code = c, created_at = 0, updated_at = 0\<rparr>"

definition tick_clock :: clock where
  "tick_clock k = int k"

definition never_set :: "nat \<Rightarrow> bool" where
  "never_set i = False"

definition set_from :: "nat \<Rightarrow> nat \<Rightarrow> bool" where
  "set_from j i = (j \<le> i)"

definition no_fault :: "nat \<Rightarrow> string option" where
  "no_fault i = None"

definition fault_at :: "nat \<Rightarrow> string \<Rightarrow> nat \<Rightarrow> string option" where
  "fault_at j m i = (if i = j then Some m else None)"

definition no_callback :: "unit callback option" where
  "no_callback = None"

text \<open>An observer that counts its calls and raises at each.\<close>

definition counting_callback :: "nat callback" where
  "counting_callback env agent result n = (Suc n, Some ''observer failed'')"

section \<open>Properties\<close>

subsection \<open>The helpers and the loop\<close>

lemma strip_empty_iff: "strip s = [] \<longleftrightarrow> list_all isspace s"
proof -
  have "strip s = [] \<longleftrightarrow> (\<forall>c \<in> set (dropWhile isspace s). isspace c)"
    by (simp add: strip_def dropWhile_eq_Nil_conv)
  also have "\<dots> \<longleftrightarrow> dropWhile isspace s = []"
  proof
    assume a: "\<forall>c \<in> set (dropWhile isspace s). isspace c"
    show "dropWhile isspace s = []"
    proof (rule ccontr)
      assume "dropWhile isspace s \<noteq> []"
      then have "\<not> isspace (hd (dropWhile isspace s))" "hd (dropWhile isspace s) \<in> set (dropWhile isspace s)"
        by (simp_all add: hd_dropWhile)
      with a show False by blast
    qed
  qed (auto dest: set_dropWhileD)
  also have "\<dots> \<longleftrightarrow> list_all isspace s"
    by (simp add: dropWhile_eq_Nil_conv list_all_iff)
  finally show ?thesis .
qed

lemma update_state_fields:
  "ident (fst (update_state now kw agent t)) = ident agent"
  "config (fst (update_state now kw agent t)) = config agent"
  "code (fst (update_state now kw agent t)) = code agent"
  "snd (update_state now kw agent t) = Suc t"
  by (simp_all add: update_state_def)

lemma for_loop_append:
  "for_loop now stop work (xs @ ys) agent t =
     (case for_loop now stop work xs agent t of
        (None, agent1, t1) \<Rightarrow> for_loop now stop work ys agent1 t1
      | (Some r, agent1, t1) \<Rightarrow> (Some r, agent1, t1))"
  by (induction xs arbitrary: agent t) (auto simp: Let_def split: prod.splits option.splits)

lemma for_loop_keeps:
  "for_loop now stop work xs agent t = (r, agent1, t1) \<Longrightarrow>
     ident agent1 = ident agent \<and> config agent1 = config agent \<and> code agent1 = code agent
     \<and> status (state agent1) = status (state agent)
     \<and> start_time (state agent1) = start_time (state agent)
     \<and> end_time (state agent1) = end_time (state agent)
     \<and> error_message (state agent1) = error_message (state agent)
     \<and> t \<le> t1"
proof (induction xs arbitrary: agent t)
  case Nil
  then show ?case by simp
next
  case (Cons i rest)
  show ?case
  proof (cases "stop i")
    case True
    with Cons.prems show ?thesis by simp
  next
    case False
    let ?a = "fst (update_state now [Iteration_count (int i + 1)] agent t)"
    show ?thesis
    proof (cases "work i")
      case None
      with False Cons.prems have "for_loop now stop work rest ?a (Suc t) = (r, agent1, t1)"
        by (simp add: update_state_def)
      from Cons.IH [OF this] show ?thesis by (simp add: update_state_def)
    next
      case (Some m)
      with False Cons.prems show ?thesis by (auto simp: update_state_def)
    qed
  qed
qed

lemma for_loop_all_steps:
  "\<forall>i \<in> set xs. \<not> stop i \<and> work i = None \<Longrightarrow> xs \<noteq> [] \<Longrightarrow>
     \<exists>agent1. for_loop now stop work xs agent t = (None, agent1, t + length xs)
       \<and> iteration_count (state agent1) = int (last xs) + 1"
proof (induction xs arbitrary: agent t)
  case Nil
  then show ?case by simp
next
  case (Cons i rest)
  show ?case
  proof (cases "rest = []")
    case True
    with Cons.prems show ?thesis by (simp add: update_state_def)
  next
    case False
    let ?a = "fst (update_state now [Iteration_count (int i + 1)] agent t)"
    from Cons.prems have "\<forall>j \<in> set rest. \<not> stop j \<and> work j = None" by simp
    from Cons.IH [OF this False, of ?a "Suc t"] obtain agent1 where
      "for_loop now stop work rest ?a (Suc t) = (None, agent1, Suc t + length rest)"
      "iteration_count (state agent1) = int (last rest) + 1" by blast
    with Cons.prems False show ?thesis by (simp add: update_state_def)
  qed
qed

lemma for_loop_counter_mono:
  "sorted xs \<Longrightarrow> \<forall>i \<in> set xs. iteration_count (state agent) \<le> int i + 1 \<Longrightarrow>
     iteration_count (state agent)
       \<le> iteration_count (state (fst (snd (for_loop now stop work xs agent t))))"
proof (induction xs arbitrary: agent t)
  case Nil
  then show ?case by simp
next
  case (Cons i rest)
  show ?case
  proof (cases "stop i \<or> work i \<noteq> None")
    case True
    with Cons.prems show ?thesis by (auto simp: update_state_def)
  next
    case False
    let ?a = "fst (update_state now [Iteration_count (int i + 1)] agent t)"
    have c: "iteration_count (state ?a) = int i + 1" by (simp add: update_state_def)
    from Cons.prems have "sorted rest" "\<forall>j \<in> set rest. iteration_count (state ?a) \<le> int j + 1"
      by (auto simp: c)
    from Cons.IH [OF this, of "Suc t"] Cons.prems False show ?thesis
      by (simp add: update_state_def)
  qed
qed

subsection \<open>Starting a run\<close>

lemma demo_agent_idle: "\<not> is_running (demo_agent c n)"
  by (simp add: demo_agent_def is_running_def AgentState_default_def)

text \<open>
  Claim C1. For an agent whose status is \<^verbatim>\<open>running\<close>, \<^verbatim>\<open>execute_agent\<close> raises the
  \<^verbatim>\<open>RuntimeError\<close> "already running" and leaves the agent and the environment (the
  registry of threads, the events, the results) as they were. For any other agent it
  returns the id of the agent, sets the status to \<^verbatim>\<open>running\<close>, the start time to the
  clock and the iteration counter to zero, puts a cleared event under the id of the agent,
  registers the started thread under it, and leaves the results alone.
\<close>

theorem execute_agent_spec:
  assumes "execute_agent now env agent t = (r, env1, agent1, t1)"
  shows "(is_running agent \<longrightarrow>
            r = Inl (RuntimeError (''Agent '' @ ident agent @ '' is already running''))
            \<and> env1 = env \<and> agent1 = agent)
       \<and> (\<not> is_running agent \<longrightarrow>
            r = Inr (ident agent)
            \<and> status (state agent1) = ''running''
            \<and> start_time (state agent1) = Some (now t)
            \<and> iteration_count (state agent1) = 0
            \<and> stop_events env1 (ident agent) = Some False
            \<and> running_agents env1 (ident agent)
                = Some \<lparr>thread_name = ''agent-'' @ ident agent, started = True\<rparr>
            \<and> results env1 = results env
            \<and> ident agent1 = ident agent)"
  using assms by (auto simp: execute_agent_def update_state_def Let_def)

theorem execute_agent_spec_witness:
  "is_running ((demo_agent ''x'' 5)\<lparr>state := AgentState_default\<lparr>status := ''running''\<rparr>\<rparr>)
   \<and> fst (execute_agent tick_clock ExecutionEnvironment_init
             ((demo_agent ''x'' 5)\<lparr>state := AgentState_default\<lparr>status := ''running''\<rparr>\<rparr>) 0)
       = Inl (RuntimeError ''Agent a1 is already running'')
   \<and> \<not> is_running (demo_agent ''x'' 5)
   \<and> fst (execute_agent tick_clock ExecutionEnvironment_init (demo_agent ''x'' 5) 0)
       = Inr ''a1''"
proof -
  let ?busy = "(demo_agent ''x'' 5)\<lparr>state := AgentState_default\<lparr>status := ''running''\<rparr>\<rparr>"
  let ?e1 = "execute_agent tick_clock ExecutionEnvironment_init ?busy 0"
  let ?e2 = "execute_agent tick_clock ExecutionEnvironment_init (demo_agent ''x'' 5) 0"
  have b: "is_running ?busy" by (simp add: is_running_def)
  have i: "\<not> is_running (demo_agent ''x'' 5)" by (rule demo_agent_idle)
  have p1: "?e1 = (fst ?e1, fst (snd ?e1), fst (snd (snd ?e1)), snd (snd (snd ?e1)))" by simp
  have p2: "?e2 = (fst ?e2, fst (snd ?e2), fst (snd (snd ?e2)), snd (snd (snd ?e2)))" by simp
  from execute_agent_spec [OF p1] b
  have "fst ?e1 = Inl (RuntimeError (''Agent '' @ ident ?busy @ '' is already running''))"
    by blast
  moreover from execute_agent_spec [OF p2] i
  have "fst ?e2 = Inr (ident (demo_agent ''x'' 5))" by blast
  ultimately show ?thesis using b i by (simp add: demo_agent_def)
qed

subsection \<open>The blocks of a run\<close>

lemma execute_agent_code_keeps:
  assumes "execute_agent_code now stop work agent t = (r, agent1, t1)"
  shows "ident agent1 = ident agent \<and> config agent1 = config agent \<and> code agent1 = code agent
     \<and> status (state agent1) = status (state agent)
     \<and> start_time (state agent1) = start_time (state agent)
     \<and> end_time (state agent1) = end_time (state agent)
     \<and> error_message (state agent1) = error_message (state agent)
     \<and> t \<le> t1"
proof (cases "strip (code agent) = []")
  case True
  with assms show ?thesis by (simp add: execute_agent_code_def)
next
  case False
  obtain r0 a0 t0 where
    l: "for_loop now stop work [0..<nat (max_iterations (config agent))] agent t = (r0, a0, t0)"
    by (metis prod_cases3)
  with assms False have "agent1 = a0" "t1 = t0"
    by (auto simp: execute_agent_code_def Let_def split: option.splits)
  with for_loop_keeps [OF l] show ?thesis by simp
qed

lemma run_agent_try_outcome:
  assumes "run_agent_try now stop work env agent t = (result, env1, agent1, t1)"
  shows "\<exists>out agent0 t0.
      execute_agent_code now stop work agent t = (out, agent0, t0)
      \<and> t1 = t0 + 2
      \<and> end_time (state agent1) = Some (now t0)
      \<and> iteration_count (state agent1) = iteration_count (state agent0)
      \<and> start_time (state agent1) = start_time (state agent0)
      \<and> ident agent1 = ident agent0 \<and> config agent1 = config agent0
      \<and> code agent1 = code agent0
      \<and> results env1 = results env \<and> running_agents env1 = running_agents env
      \<and> stop_events env1 = stop_events env
      \<and> (case out of
            Inr s \<Rightarrow>
              result = \<lparr>agent_id = ident agent, success = True, output_text = Some s,
                        error = None, duration = 0,
                        iterations = iteration_count (state agent0)\<rparr>
              \<and> status (state agent1) = ''completed''
              \<and> error_message (state agent1) = error_message (state agent0)
              \<and> env1 = env
          | Inl m \<Rightarrow>
              result = \<lparr>agent_id = ident agent, success = False, output_text = None,
                        error = Some m, duration = 0, iterations = 0\<rparr>
              \<and> status (state agent1) = ''error''
              \<and> error_message (state agent1) = Some m
              \<and> env1 = log_msg ERROR (''Agent '' @ ident agent @ '' failed: '' @ m) env)"
proof -
  obtain out agent0 t0 where e: "execute_agent_code now stop work agent t = (out, agent0, t0)"
    by (metis prod_cases3)
  show ?thesis
  proof (cases out)
    case (Inl m)
    with assms e show ?thesis
      by (auto simp: run_agent_try_def update_state_def log_msg_def)
  next
    case (Inr s)
    with assms e show ?thesis
      by (auto simp: run_agent_try_def update_state_def)
  qed
qed

lemma run_agent_store_eq:
  "run_agent_store now start result env agent t =
     (result\<lparr>duration := now t - start\<rparr>,
      env\<lparr>results := (results env)(ident agent \<mapsto> result\<lparr>duration := now t - start\<rparr>),
          running_agents := (running_agents env)(ident agent := None),
          stop_events := (stop_events env)(ident agent := None)\<rparr>,
      Suc t)"
proof -
  have a: "(running_agents env)(ident agent := None) = running_agents env"
    if "running_agents env (ident agent) = None" using that by auto
  have b: "(stop_events env)(ident agent := None) = stop_events env"
    if "stop_events env (ident agent) = None" using that by auto
  show ?thesis by (auto simp: run_agent_store_def Let_def a b)
qed

lemma run_agent_unfold:
  assumes "run_agent now stop work env agent cb obs t = (env3, agent1, obs1, t2)"
  shows "\<exists>result env1 t1.
      run_agent_try now stop work env agent (Suc t) = (result, env1, agent1, t1)
      \<and> t2 = Suc t1
      \<and> run_agent_callback cb (result\<lparr>duration := now t1 - now t\<rparr>)
           (env1\<lparr>results := (results env1)(ident agent1 \<mapsto> result\<lparr>duration := now t1 - now t\<rparr>),
                 running_agents := (running_agents env1)(ident agent1 := None),
                 stop_events := (stop_events env1)(ident agent1 := None)\<rparr>)
           agent1 obs = (env3, obs1)"
  using assms
  by (auto simp: run_agent_def run_agent_store_eq Let_def split: prod.splits)

lemma produced_result_eq:
  assumes "run_agent_try now stop work env agent (Suc t) = (result, env1, agent1, t1)"
  shows "produced_result now stop work env agent t = result\<lparr>duration := now t1 - now t\<rparr>"
  using assms by (simp add: produced_result_def run_agent_store_eq)

lemma run_agent_callback_env:
  assumes "run_agent_callback cb result env agent obs = (env1, obs1)"
  shows "results env1 = results env \<and> running_agents env1 = running_agents env
     \<and> stop_events env1 = stop_events env"
  using assms
  by (auto simp: run_agent_callback_def log_msg_def split: option.splits prod.splits)

subsection \<open>Every run ends in a terminal status\<close>

text \<open>
  Claim C2. Whatever the event and the work do (the loop comes to its end, the work
  raises, the event is set), \<^verbatim>\<open>_run_agent\<close> returns: the function has no exceptional
  outcome, because line 116 handles every exception of the body and line 142 every
  exception of the callback. When it returns, the status of the agent is
  \<^verbatim>\<open>completed\<close> or \<^verbatim>\<open>error\<close> and not \<^verbatim>\<open>running\<close>, the end time is a read of
  the clock, and the result stored under the id of the agent carries that id and, as its
  duration, the clock of line 128 less the clock of line 99. The result is a success
  without error text when the status is \<^verbatim>\<open>completed\<close>, and a failure whose error text
  is the error message of the agent when the status is \<^verbatim>\<open>error\<close>.
\<close>

theorem run_agent_terminal:
  "case run_agent now stop_event work env agent callback obs t of
     (env1, agent1, obs1, t1) \<Rightarrow>
       (status (state agent1) = ''completed'' \<or> status (state agent1) = ''error'')
       \<and> status (state agent1) \<noteq> ''running''
       \<and> t + 4 \<le> t1
       \<and> end_time (state agent1) = Some (now (t1 - 3))
       \<and> (\<exists>r. get_result env1 (ident agent) = Some r
              \<and> agent_id r = ident agent
              \<and> duration r = now (t1 - 1) - now t
              \<and> (success r \<and> error r = None \<and> status (state agent1) = ''completed''
                  \<or> \<not> success r \<and> error r \<noteq> None \<and> error r = error_message (state agent1)
                     \<and> status (state agent1) = ''error''))"
proof -
  obtain env1 agent1 obs1 t1 where
    r: "run_agent now stop_event work env agent callback obs t = (env1, agent1, obs1, t1)"
    by (metis prod_cases4)
  from run_agent_unfold [OF r] obtain result env0 t0 where
    tr: "run_agent_try now stop_event work env agent (Suc t) = (result, env0, agent1, t0)"
    and t1: "t1 = Suc t0"
    and cb: "run_agent_callback callback (result\<lparr>duration := now t0 - now t\<rparr>)
           (env0\<lparr>results := (results env0)(ident agent1 \<mapsto> result\<lparr>duration := now t0 - now t\<rparr>),
                 running_agents := (running_agents env0)(ident agent1 := None),
                 stop_events := (stop_events env0)(ident agent1 := None)\<rparr>)
           agent1 obs = (env1, obs1)"
    by blast
  from run_agent_try_outcome [OF tr] obtain out agent0 t00 where
    ex: "execute_agent_code now stop_event work agent (Suc t) = (out, agent0, t00)"
    and t0: "t0 = t00 + 2"
    and et: "end_time (state agent1) = Some (now t00)"
    and id1: "ident agent1 = ident agent0"
    and oc: "case out of
            Inr s \<Rightarrow>
              result = \<lparr>agent_id = ident agent, success = True, output_text = Some s,
                        error = None, duration = 0,
                        iterations = iteration_count (state agent0)\<rparr>
              \<and> status (state agent1) = ''completed''
              \<and> error_message (state agent1) = error_message (state agent0)
              \<and> env0 = env
          | Inl m \<Rightarrow>
              result = \<lparr>agent_id = ident agent, success = False, output_text = None,
                        error = Some m, duration = 0, iterations = 0\<rparr>
              \<and> status (state agent1) = ''error''
              \<and> error_message (state agent1) = Some m
              \<and> env0 = log_msg ERROR (''Agent '' @ ident agent @ '' failed: '' @ m) env"
    by blast
  from execute_agent_code_keeps [OF ex] have id0: "ident agent0 = ident agent" and le: "Suc t \<le> t00"
    by simp_all
  from run_agent_callback_env [OF cb] id1 id0
  have res: "get_result env1 (ident agent) = Some (result\<lparr>duration := now t0 - now t\<rparr>)"
    by (simp add: get_result_def)
  have st: "(status (state agent1) = ''completed'' \<or> status (state agent1) = ''error'')
       \<and> status (state agent1) \<noteq> ''running''"
    using oc by (cases out) simp_all
  have tm: "t + 4 \<le> t1 \<and> end_time (state agent1) = Some (now (t1 - 3))"
    using t1 t0 et le by simp
  have fl: "agent_id (result\<lparr>duration := now t0 - now t\<rparr>) = ident agent
       \<and> duration (result\<lparr>duration := now t0 - now t\<rparr>) = now (t1 - 1) - now t
       \<and> (success (result\<lparr>duration := now t0 - now t\<rparr>) \<and> error (result\<lparr>duration := now t0 - now t\<rparr>) = None \<and> status (state agent1) = ''completed''
                  \<or> \<not> success (result\<lparr>duration := now t0 - now t\<rparr>) \<and> error (result\<lparr>duration := now t0 - now t\<rparr>) \<noteq> None
                     \<and> error (result\<lparr>duration := now t0 - now t\<rparr>) = error_message (state agent1)
                     \<and> status (state agent1) = ''error'')"
    using oc t1 by (cases out) simp_all
  from res st tm fl show ?thesis unfolding r by simp
qed

subsection \<open>The result store\<close>

lemmas run_defs = run_agent_def run_agent_try_def run_agent_store_def run_agent_callback_def
  execute_agent_code_def update_state_def log_msg_def strip_def isspace_def demo_agent_def
  ExecutionEnvironment_init_def AgentState_default_def tick_clock_def never_set_def
  set_from_def no_fault_def fault_at_def no_callback_def counting_callback_def
  get_result_def str_int_def str_nat.simps execute_agent_def execute_and_run_def
  is_running_def Let_def

lemma run_agent_try_ident:
  assumes "run_agent_try now stop work env agent t = (result, env1, agent1, t1)"
  shows "ident agent1 = ident agent \<and> results env1 = results env
     \<and> running_agents env1 = running_agents env \<and> stop_events env1 = stop_events env"
proof -
  from run_agent_try_outcome [OF assms] obtain out agent0 t0 where
    "execute_agent_code now stop work agent t = (out, agent0, t0)"
    "ident agent1 = ident agent0" "results env1 = results env"
    "running_agents env1 = running_agents env" "stop_events env1 = stop_events env"
    by blast
  with execute_agent_code_keeps [of now stop work agent t out agent0 t0]
  show ?thesis by simp
qed

lemma run_agent_env:
  assumes "run_agent now stop work env agent cb obs t = (env1, agent1, obs1, t1)"
  shows "results env1 = (results env)(ident agent \<mapsto> produced_result now stop work env agent t)
     \<and> running_agents env1 = (running_agents env)(ident agent := None)
     \<and> stop_events env1 = (stop_events env)(ident agent := None)
     \<and> ident agent1 = ident agent"
proof -
  from run_agent_unfold [OF assms] obtain result env0 t0 where
    tr: "run_agent_try now stop work env agent (Suc t) = (result, env0, agent1, t0)"
    and cb: "run_agent_callback cb (result\<lparr>duration := now t0 - now t\<rparr>)
           (env0\<lparr>results := (results env0)(ident agent1 \<mapsto> result\<lparr>duration := now t0 - now t\<rparr>),
                 running_agents := (running_agents env0)(ident agent1 := None),
                 stop_events := (stop_events env0)(ident agent1 := None)\<rparr>)
           agent1 obs = (env1, obs1)"
    by blast
  from run_agent_callback_env [OF cb] run_agent_try_ident [OF tr] produced_result_eq [OF tr]
  show ?thesis by simp
qed

lemma execute_agent_results:
  "execute_agent now env agent t = (r, env1, agent1, t1) \<Longrightarrow> results env1 = results env"
  by (auto simp: execute_agent_def update_state_def Let_def split: if_splits)

lemma stop_agent_results:
  assumes "stop_agent join env aid = (r, env1)"
  shows "results env1 = results env
     \<or> results env1 = results (fst (join (env\<lparr>stop_events := (stop_events env)(aid \<mapsto> True)\<rparr>)))
     \<or> results env1 = results (fst (join env))"
  using assms
  by (auto simp: stop_agent_def log_msg_def Let_def split: if_splits prod.splits)

lemma reach_results:
  "reach env finished obs \<Longrightarrow> aid \<notin> finished \<Longrightarrow> results env aid = None"
proof (induction rule: reach.induct)
  case (reach_init obs)
  show ?case by (simp add: ExecutionEnvironment_init_def)
next
  case (reach_execute env finished obs now agent t r env1 agent1 t1)
  then show ?case by (simp add: execute_agent_results)
next
  case (reach_run env finished obs now stop_event work agent callback t env1 agent1 obs1 t1)
  from run_agent_env [OF reach_run.hyps(2)] reach_run.prems reach_run.IH
  show ?case by simp
next
  case (reach_stop env finished obs alive aid' r env1)
  from stop_agent_results [OF reach_stop.hyps(2)] reach_stop.prems reach_stop.IH
  show ?case by auto
next
  case (reach_stop_unit env finished obs now work agent callback t r env1)
  let ?j = "join_unit now work agent callback obs t"
  have j: "results (fst (?j e)) aid = results e aid" if "aid \<noteq> ident agent" for e
  proof -
    obtain e1 a1 o1 t1 where
      "run_agent now (\<lambda>i. stop_events e (ident agent) = Some True) work e agent callback obs t
         = (e1, a1, o1, t1)" by (metis prod_cases4)
    from run_agent_env [OF this] this that show ?thesis by (simp add: join_unit_def)
  qed
  from reach_stop_unit.prems have n: "aid \<noteq> ident agent" "aid \<notin> finished" by simp_all
  from stop_agent_results [OF reach_stop_unit.hyps(2)] j [OF n(1)] reach_stop_unit.IH [OF n(2)]
  show ?case by auto
qed

text \<open>
  Claim C7. After a run, \<^verbatim>\<open>get_result\<close> at the id of the agent returns the result
  that the run produced, equal in every field. In an environment reached from a new one,
  \<^verbatim>\<open>get_result\<close> returns \<^verbatim>\<open>None\<close> at every id of which no run has come to its end.
\<close>

theorem get_result_round_trip:
  "(run_agent now stop_event work env agent callback obs t = (env1, agent1, obs1, t1)
      \<longrightarrow> get_result env1 (ident agent) = Some (produced_result now stop_event work env agent t))
   \<and> (reach env' finished obs' \<longrightarrow> aid \<notin> finished \<longrightarrow> get_result env' aid = None)"
  using run_agent_env [of now stop_event work env agent callback obs t env1 agent1 obs1 t1]
    reach_results [of env' finished obs' aid]
  by (simp add: get_result_def)

theorem get_result_round_trip_witness:
  "get_result
     (fst (run_agent tick_clock never_set no_fault ExecutionEnvironment_init
             (demo_agent ''x'' 5) no_callback () 0)) ''a1''
     = Some \<lparr>agent_id = ''a1'', success = True,
             output_text = Some ''Agent executed successfully for 5 iterations'',
             error = None, duration = 8, iterations = 5\<rparr>
   \<and> get_result
       (fst (snd (execute_agent tick_clock ExecutionEnvironment_init (demo_agent ''x'' 5) 0)))
       ''a1'' = None"
proof -
  let ?run = "run_agent tick_clock never_set no_fault ExecutionEnvironment_init
                (demo_agent ''x'' 5) no_callback () 0"
  let ?ex = "execute_agent tick_clock ExecutionEnvironment_init (demo_agent ''x'' 5) 0"
  have p: "?run = (fst ?run, fst (snd ?run), fst (snd (snd ?run)), snd (snd (snd ?run)))"
    by (simp only: prod.collapse)
  have q: "?ex = (fst ?ex, fst (snd ?ex), fst (snd (snd ?ex)), snd (snd (snd ?ex)))"
    by simp
  have r: "reach (fst (snd ?ex)) {} ()"
    by (rule reach_execute [OF reach_init q])
  have "get_result (fst ?run) (ident (demo_agent ''x'' 5))
          = Some (produced_result tick_clock never_set no_fault ExecutionEnvironment_init
                    (demo_agent ''x'' 5) 0)"
    by (rule get_result_round_trip [THEN conjunct1, rule_format, OF p])
  moreover have "produced_result tick_clock never_set no_fault ExecutionEnvironment_init
                    (demo_agent ''x'' 5) 0
       = \<lparr>agent_id = ''a1'', success = True,
             output_text = Some ''Agent executed successfully for 5 iterations'',
             error = None, duration = 8, iterations = 5\<rparr>"
    by (simp add: produced_result_def run_defs upt_rec)
  moreover have "get_result (fst (snd ?ex)) ''a1'' = None"
    by (rule get_result_round_trip [THEN conjunct2, rule_format, OF r]) simp
  ultimately show ?thesis by (simp add: demo_agent_def)
qed

subsection \<open>The observer\<close>

text \<open>
  Claim C8. A run with a callback calls it once: the state of the observer after the run
  is what one call makes of the state before it. The call gets the result that the run
  produced, and the environment it sees holds this result under the id of the agent and
  has neither a thread nor an event under that id. After the call the results and the two
  registries are what the call saw, whether it raised or not; when it raised, the error
  log has one more line and nothing else has changed.
\<close>

theorem run_agent_callback_once:
  assumes "run_agent now stop_event work env agent (Some cb) obs t = (env1, agent1, obs1, t1)"
  shows "\<exists>env0 raised.
      cb env0 agent1 (produced_result now stop_event work env agent t) obs = (obs1, raised)
      \<and> results env0 (ident agent) = Some (produced_result now stop_event work env agent t)
      \<and> running_agents env0 (ident agent) = None
      \<and> stop_events env0 (ident agent) = None
      \<and> results env1 = results env0
      \<and> running_agents env1 = running_agents env0
      \<and> stop_events env1 = stop_events env0
      \<and> logger env1 = logger env0 @
           (case raised of
              None \<Rightarrow> []
            | Some e \<Rightarrow> [(ERROR, ''Callback failed for agent '' @ ident agent @ '': '' @ e)])"
proof -
  from run_agent_unfold [OF assms] obtain result env2 t2 where
    tr: "run_agent_try now stop_event work env agent (Suc t) = (result, env2, agent1, t2)"
    and cb: "run_agent_callback (Some cb) (result\<lparr>duration := now t2 - now t\<rparr>)
           (env2\<lparr>results := (results env2)(ident agent1 \<mapsto> result\<lparr>duration := now t2 - now t\<rparr>),
                 running_agents := (running_agents env2)(ident agent1 := None),
                 stop_events := (stop_events env2)(ident agent1 := None)\<rparr>)
           agent1 obs = (env1, obs1)"
    by blast
  let ?r = "produced_result now stop_event work env agent t"
  let ?env0 = "env2\<lparr>results := (results env2)(ident agent1 \<mapsto> ?r),
                 running_agents := (running_agents env2)(ident agent1 := None),
                 stop_events := (stop_events env2)(ident agent1 := None)\<rparr>"
  have pr: "result\<lparr>duration := now t2 - now t\<rparr> = ?r"
    using produced_result_eq [OF tr] by simp
  have id: "ident agent1 = ident agent" using run_agent_try_ident [OF tr] by simp
  obtain o2 raised where c: "cb ?env0 agent1 ?r obs = (o2, raised)" by (metis prod.collapse)
  from cb have cb': "run_agent_callback (Some cb) ?r ?env0 agent1 obs = (env1, obs1)"
    by (simp only: pr)
  have "o2 = obs1 \<and> results env1 = results ?env0
      \<and> running_agents env1 = running_agents ?env0
      \<and> stop_events env1 = stop_events ?env0
      \<and> logger env1 = logger ?env0 @
           (case raised of
              None \<Rightarrow> []
            | Some e \<Rightarrow> [(ERROR, ''Callback failed for agent '' @ ident agent @ '': '' @ e)])"
    using cb' c id by (cases raised) (auto simp: run_agent_callback_def log_msg_def)
  moreover have "results ?env0 (ident agent) = Some ?r \<and> running_agents ?env0 (ident agent) = None
      \<and> stop_events ?env0 (ident agent) = None"
    using id by simp
  ultimately show ?thesis using c by blast
qed

theorem run_agent_callback_once_witness:
  "fst (snd (snd (run_agent tick_clock never_set no_fault ExecutionEnvironment_init
                    (demo_agent ''x'' 5) (Some counting_callback) 0 0))) = Suc 0
   \<and> logger (fst (run_agent tick_clock never_set no_fault ExecutionEnvironment_init
                    (demo_agent ''x'' 5) (Some counting_callback) 0 0))
       = [(ERROR, ''Callback failed for agent a1: observer failed'')]
   \<and> running_agents (fst (run_agent tick_clock never_set no_fault ExecutionEnvironment_init
                    (demo_agent ''x'' 5) (Some counting_callback) 0 0)) ''a1'' = None"
proof -
  let ?run = "run_agent tick_clock never_set no_fault ExecutionEnvironment_init
                (demo_agent ''x'' 5) (Some counting_callback) 0 0"
  have p: "?run = (fst ?run, fst (snd ?run), fst (snd (snd ?run)), snd (snd (snd ?run)))"
    by (simp only: prod.collapse)
  from run_agent_callback_once [OF p] obtain env0 raised where
    c: "counting_callback env0 (fst (snd ?run))
          (produced_result tick_clock never_set no_fault ExecutionEnvironment_init
             (demo_agent ''x'' 5) 0) 0 = (fst (snd (snd ?run)), raised)"
    and r: "running_agents env0 (ident (demo_agent ''x'' 5)) = None"
      "running_agents (fst ?run) = running_agents env0"
    by blast
  from c have "fst (snd (snd ?run)) = Suc 0" by (simp add: counting_callback_def)
  moreover from r have "running_agents (fst ?run) ''a1'' = None" by (simp add: demo_agent_def)
  moreover have "logger (fst ?run) = [(ERROR, ''Callback failed for agent a1: observer failed'')]"
    by (simp add: run_defs upt_rec)
  ultimately show ?thesis by simp
qed

theorem run_agent_terminal_witness:
  "status (state (fst (snd (run_agent tick_clock never_set (fault_at 1 ''boom'')
       ExecutionEnvironment_init (demo_agent ''x'' 5) no_callback () 0)))) = ''error''
   \<and> end_time (state (fst (snd (run_agent tick_clock never_set (fault_at 1 ''boom'')
       ExecutionEnvironment_init (demo_agent ''x'' 5) no_callback () 0)))) = Some 3
   \<and> get_result (fst (run_agent tick_clock never_set (fault_at 1 ''boom'')
       ExecutionEnvironment_init (demo_agent ''x'' 5) no_callback () 0)) ''a1''
       = Some \<lparr>agent_id = ''a1'', success = False, output_text = None,
               error = Some ''boom'', duration = 5, iterations = 0\<rparr>"
  using run_agent_terminal [where now = tick_clock and stop_event = never_set
      and work = "fault_at 1 ''boom''" and env = ExecutionEnvironment_init
      and agent = "demo_agent ''x'' 5" and callback = no_callback and obs = "()" and t = 0]
  by (simp add: run_defs upt_rec)

subsection \<open>The outcomes of the code of the agent\<close>

lemma run_agent_result:
  assumes r: "run_agent now stop work env agent cb obs t = (env1, agent1, obs1, t1)"
    and e: "execute_agent_code now stop work agent (Suc t) = (out, agent0, t0)"
  shows "t1 = t0 + 3
     \<and> iteration_count (state agent1) = iteration_count (state agent0)
     \<and> (case out of
           Inr s \<Rightarrow>
             get_result env1 (ident agent)
               = Some \<lparr>agent_id = ident agent, success = True, output_text = Some s,
                       error = None, duration = now (t0 + 2) - now t,
                       iterations = iteration_count (state agent0)\<rparr>
             \<and> status (state agent1) = ''completed''
         | Inl m \<Rightarrow>
             get_result env1 (ident agent)
               = Some \<lparr>agent_id = ident agent, success = False, output_text = None,
                       error = Some m, duration = now (t0 + 2) - now t, iterations = 0\<rparr>
             \<and> status (state agent1) = ''error''
             \<and> error_message (state agent1) = Some m)"
proof -
  from run_agent_unfold [OF r] obtain result env2 t2 where
    tr: "run_agent_try now stop work env agent (Suc t) = (result, env2, agent1, t2)"
    and t1: "t1 = Suc t2" by blast
  from run_agent_env [OF r] produced_result_eq [OF tr]
  have g: "get_result env1 (ident agent) = Some (result\<lparr>duration := now t2 - now t\<rparr>)"
    by (simp add: get_result_def)
  from run_agent_try_outcome [OF tr] e
  have t2: "t2 = t0 + 2"
    and c: "iteration_count (state agent1) = iteration_count (state agent0)"
    and oc: "case out of
            Inr s \<Rightarrow>
              result = \<lparr>agent_id = ident agent, success = True, output_text = Some s,
                        error = None, duration = 0,
                        iterations = iteration_count (state agent0)\<rparr>
              \<and> status (state agent1) = ''completed''
              \<and> error_message (state agent1) = error_message (state agent0)
              \<and> env2 = env
          | Inl m \<Rightarrow>
              result = \<lparr>agent_id = ident agent, success = False, output_text = None,
                        error = Some m, duration = 0, iterations = 0\<rparr>
              \<and> status (state agent1) = ''error''
              \<and> error_message (state agent1) = Some m
              \<and> env2 = log_msg ERROR (''Agent '' @ ident agent @ '' failed: '' @ m) env"
    by auto
  show ?thesis using g t1 t2 c oc by (cases out) simp_all
qed

lemma execute_and_run_idle:
  assumes "\<not> is_running agent"
    and "execute_and_run now stop work env agent cb obs t = (r, env2, agent2, obs2, t2)"
  shows "\<exists>env1 agent1.
      execute_agent now env agent t = (Inr (ident agent), env1, agent1, t + 2)
      \<and> r = Inr (ident agent)
      \<and> run_agent now stop work env1 agent1 cb obs (t + 2) = (env2, agent2, obs2, t2)
      \<and> iteration_count (state agent1) = 0
      \<and> ident agent1 = ident agent \<and> code agent1 = code agent
      \<and> config agent1 = config agent"
  using assms
  by (auto simp: execute_and_run_def execute_agent_def update_state_def Let_def
        split: prod.splits)

lemma take_upt_min: "take m [0..<n] = [0..<min m n]"
proof (cases "m \<le> n")
  case True
  then show ?thesis using take_upt [of 0 m n] by (simp add: min_def)
next
  case False
  then show ?thesis by (simp add: min_def)
qed

lemma execute_agent_code_blank:
  "list_all isspace (code agent) \<Longrightarrow>
     execute_agent_code now stop work agent t = (Inr ''No code to execute'', agent, t)"
  by (simp add: execute_agent_code_def strip_empty_iff)

lemma execute_agent_code_stopped_first:
  assumes "strip (code agent) \<noteq> []" "0 < max_iterations (config agent)" "stop 0"
  shows "execute_agent_code now stop work agent t
           = (Inr ''Execution stopped at iteration 0'', agent, t)"
proof -
  from assms(2) have "[0..<nat (max_iterations (config agent))]
      = 0 # [1..<nat (max_iterations (config agent))]"
    by (simp add: upt_conv_Cons)
  with assms show ?thesis
    by (simp add: execute_agent_code_def Let_def str_int_def str_nat.simps)
qed

lemma execute_agent_code_all_steps:
  assumes "strip (code agent) \<noteq> []" "0 \<le> max_iterations (config agent)"
    and "\<forall>i < nat (max_iterations (config agent)). \<not> stop i \<and> work i = None"
  shows "\<exists>agent0.
      execute_agent_code now stop work agent t
        = (Inr (''Agent executed successfully for '' @ str_int (max_iterations (config agent))
                  @ '' iterations''),
           agent0, t + nat (max_iterations (config agent)))
      \<and> iteration_count (state agent0)
          = (if max_iterations (config agent) = 0 then iteration_count (state agent)
             else max_iterations (config agent))"
proof (cases "max_iterations (config agent) = 0")
  case True
  with assms show ?thesis by (simp add: execute_agent_code_def Let_def)
next
  case False
  let ?n = "nat (max_iterations (config agent))"
  from False assms(2) have n: "0 < ?n" by simp
  then have ne: "[0..<?n] \<noteq> []" and l: "last [0..<?n] = ?n - 1"
    by (simp_all add: last_upt)
  from assms(3) have "\<forall>i \<in> set [0..<?n]. \<not> stop i \<and> work i = None" by simp
  from for_loop_all_steps [OF this ne, of now agent t] obtain agent0 where
    "for_loop now stop work [0..<?n] agent t = (None, agent0, t + length [0..<?n])"
    "iteration_count (state agent0) = int (last [0..<?n]) + 1" by blast
  with assms(1,2) False n l show ?thesis
    by (simp add: execute_agent_code_def Let_def)
qed

lemma execute_agent_code_fault:
  assumes "strip (code agent) \<noteq> []" "0 < k" "int k \<le> max_iterations (config agent)"
    and "\<forall>i < k. \<not> stop i" "\<forall>i < k - 1. work i = None" "work (k - 1) = Some m"
  shows "\<exists>agent0.
      execute_agent_code now stop work agent t = (Inl m, agent0, t + k)
      \<and> iteration_count (state agent0) = int k"
proof -
  let ?n = "nat (max_iterations (config agent))"
  from assms(2,3) have kn: "k \<le> ?n" by simp
  have sp: "[0..<?n] = [0..<k - 1] @ (k - 1) # [k..<?n]"
  proof -
    from kn assms(2) have "[0..<?n] = [0..<k - 1] @ [k - 1..<?n]"
      using upt_add_eq_append [of 0 "k - 1" "?n - (k - 1)"] by simp
    moreover from kn assms(2) have "[k - 1..<?n] = (k - 1) # [k..<?n]"
      by (simp add: upt_conv_Cons)
    ultimately show ?thesis by simp
  qed
  obtain a1 where
    pre: "for_loop now stop work [0..<k - 1] agent t = (None, a1, t + (k - 1))"
  proof (cases "k - 1 = 0")
    case True
    then show ?thesis using that by simp
  next
    case False
    then have ne: "[0..<k - 1] \<noteq> []" by simp
    from assms(4,5) have "\<forall>i \<in> set [0..<k - 1]. \<not> stop i \<and> work i = None" by simp
    from for_loop_all_steps [OF this ne, of now agent t] show ?thesis using that by auto
  qed
  from assms(2,4) have ns: "\<not> stop (k - 1)" by simp
  let ?a = "fst (update_state now [Iteration_count (int (k - 1) + 1)] a1 (t + (k - 1)))"
  have "for_loop now stop work [0..<?n] agent t = (Some (Inl m), ?a, Suc (t + (k - 1)))"
    using pre ns assms(6) by (simp add: sp for_loop_append update_state_def)
  moreover have "iteration_count (state ?a) = int k"
    using assms(2) by (simp add: update_state_def)
  ultimately show ?thesis using assms(1,2) by (simp add: execute_agent_code_def Let_def)
qed

subsection \<open>An agent without code\<close>

text \<open>
  Claim C10. For an agent that is not running and whose code is empty or white space
  only, \<^verbatim>\<open>execute_agent\<close> and the run it starts end, whatever the iteration ceiling,
  the event and the work are, without a round of the loop: the clock is read six times
  in all. The result stored is a success with the output \<^verbatim>\<open>No code to execute\<close>, no
  error text and iteration count 0, and the agent is left in the status
  \<^verbatim>\<open>completed\<close> with its counter at 0.
\<close>

theorem blank_code_run:
  assumes "\<not> is_running agent" and "list_all isspace (code agent)"
    and "execute_and_run now stop_event work env agent callback obs t
           = (r, env1, agent1, obs1, t1)"
  shows "r = Inr (ident agent)
     \<and> t1 = t + 6
     \<and> get_result env1 (ident agent)
         = Some \<lparr>agent_id = ident agent, success = True,
                 output_text = Some ''No code to execute'', error = None,
                 duration = now (t + 5) - now (t + 2), iterations = 0\<rparr>
     \<and> status (state agent1) = ''completed''
     \<and> iteration_count (state agent1) = 0"
proof -
  from execute_and_run_idle [OF assms(1,3)] obtain env0 agent0 where
    r: "r = Inr (ident agent)"
    and run: "run_agent now stop_event work env0 agent0 callback obs (t + 2)
                = (env1, agent1, obs1, t1)"
    and c: "iteration_count (state agent0) = 0"
    and k: "ident agent0 = ident agent" "code agent0 = code agent"
    by blast
  from assms(2) k have "list_all isspace (code agent0)" by simp
  then have "execute_agent_code now stop_event work agent0 (Suc (t + 2))
      = (Inr ''No code to execute'', agent0, Suc (t + 2))"
    by (rule execute_agent_code_blank)
  from run_agent_result [OF run this] r c k show ?thesis
    by (simp add: eval_nat_numeral)
qed

theorem blank_code_run_witness:
  "\<not> is_running (demo_agent ''  '' 100) \<and> list_all isspace (code (demo_agent ''  '' 100))
   \<and> get_result
       (fst (snd (execute_and_run tick_clock never_set no_fault ExecutionEnvironment_init
                    (demo_agent ''  '' 100) no_callback () 0))) ''a1''
       = Some \<lparr>agent_id = ''a1'', success = True, output_text = Some ''No code to execute'',
               error = None, duration = 3, iterations = 0\<rparr>"
proof -
  let ?run = "execute_and_run tick_clock never_set no_fault ExecutionEnvironment_init
                (demo_agent ''  '' 100) no_callback () 0"
  have p: "?run = (fst ?run, fst (snd ?run), fst (snd (snd ?run)), fst (snd (snd (snd ?run))),
                   snd (snd (snd (snd ?run))))"
    by (simp only: prod.collapse)
  have i: "\<not> is_running (demo_agent ''  '' 100)" by (rule demo_agent_idle)
  have b: "list_all isspace (code (demo_agent ''  '' 100))"
    by (simp add: demo_agent_def isspace_def)
  from blank_code_run [OF i b p] i b show ?thesis
    by (simp add: demo_agent_def tick_clock_def)
qed

subsection \<open>Runs that end, runs that are stopped, runs that fail\<close>

text \<open>
  Claim C6. The environment gets its agents validated: the code is not blank and the
  iteration ceiling is positive (the theorem asks only that it is not negative). For
  such an agent that is not running, when the event is not set and the work does not
  raise at any index below the ceiling, \<^verbatim>\<open>execute_agent\<close> and the run it starts leave
  the iteration counter of the agent at the ceiling and the status at
  \<^verbatim>\<open>completed\<close>, and the result stored is a success without error text whose
  iteration count is the ceiling. With the ceiling 5 the result has success true,
  iterations 5 and no error.
\<close>

theorem completed_run_counter:
  assumes "\<not> is_running agent" and "strip (code agent) \<noteq> []"
    and "0 \<le> max_iterations (config agent)"
    and "\<forall>i < nat (max_iterations (config agent)). \<not> stop_event i \<and> work i = None"
    and "execute_and_run now stop_event work env agent callback obs t
           = (r, env1, agent1, obs1, t1)"
  shows "iteration_count (state agent1) = max_iterations (config agent)
     \<and> status (state agent1) = ''completed''
     \<and> get_result env1 (ident agent)
         = Some \<lparr>agent_id = ident agent, success = True,
                 output_text = Some (''Agent executed successfully for ''
                                  @ str_int (max_iterations (config agent)) @ '' iterations''),
                 error = None, duration = now (t1 - 1) - now (t + 2),
                 iterations = max_iterations (config agent)\<rparr>"
proof -
  from execute_and_run_idle [OF assms(1,5)] obtain env0 agent0 where
    run: "run_agent now stop_event work env0 agent0 callback obs (t + 2)
                = (env1, agent1, obs1, t1)"
    and c: "iteration_count (state agent0) = 0"
    and k: "ident agent0 = ident agent" "code agent0 = code agent"
      "config agent0 = config agent"
    by blast
  from assms(2,3,4) k have
    "strip (code agent0) \<noteq> []" "0 \<le> max_iterations (config agent0)"
    "\<forall>i < nat (max_iterations (config agent0)). \<not> stop_event i \<and> work i = None"
    by simp_all
  from execute_agent_code_all_steps [OF this, of now "Suc (t + 2)"] obtain agent2 where
    e: "execute_agent_code now stop_event work agent0 (Suc (t + 2))
        = (Inr (''Agent executed successfully for '' @ str_int (max_iterations (config agent0))
                  @ '' iterations''),
           agent2, Suc (t + 2) + nat (max_iterations (config agent0)))"
    and c2: "iteration_count (state agent2)
          = (if max_iterations (config agent0) = 0 then iteration_count (state agent0)
             else max_iterations (config agent0))"
    by blast
  from c c2 k have c3: "iteration_count (state agent2) = max_iterations (config agent)"
    by simp
  from run_agent_result [OF run e] c3 k show ?thesis by (simp add: eval_nat_numeral)
qed

theorem completed_run_counter_witness:
  "\<not> is_running (demo_agent ''x'' 5) \<and> strip (code (demo_agent ''x'' 5)) \<noteq> []
   \<and> 0 \<le> max_iterations (config (demo_agent ''x'' 5))
   \<and> iteration_count (state (fst (snd (snd
        (execute_and_run tick_clock never_set no_fault ExecutionEnvironment_init
           (demo_agent ''x'' 5) no_callback () 0))))) = 5
   \<and> get_result (fst (snd
        (execute_and_run tick_clock never_set no_fault ExecutionEnvironment_init
           (demo_agent ''x'' 5) no_callback () 0))) ''a1''
       = Some \<lparr>agent_id = ''a1'', success = True,
               output_text = Some ''Agent executed successfully for 5 iterations'',
               error = None, duration = 8, iterations = 5\<rparr>"
proof -
  let ?run = "execute_and_run tick_clock never_set no_fault ExecutionEnvironment_init
                (demo_agent ''x'' 5) no_callback () 0"
  have p: "?run = (fst ?run, fst (snd ?run), fst (snd (snd ?run)), fst (snd (snd (snd ?run))),
                   snd (snd (snd (snd ?run))))"
    by (simp only: prod.collapse)
  have i: "\<not> is_running (demo_agent ''x'' 5)" by (rule demo_agent_idle)
  have b: "strip (code (demo_agent ''x'' 5)) \<noteq> []"
    by (simp add: demo_agent_def strip_def isspace_def)
  have n: "0 \<le> max_iterations (config (demo_agent ''x'' 5))" by (simp add: demo_agent_def)
  have q: "\<forall>i < nat (max_iterations (config (demo_agent ''x'' 5))).
             \<not> never_set i \<and> no_fault i = None"
    by (simp add: never_set_def no_fault_def)
  have t: "snd (snd (snd (snd ?run))) = 11" by (simp add: run_defs upt_rec)
  from completed_run_counter [OF i b n q p] i b n t show ?thesis
    by (simp add: demo_agent_def tick_clock_def str_int_def str_nat.simps)
qed

text \<open>
  Claim C5, amended. For an agent that is not running, whose code is not blank and whose
  iteration ceiling is positive, when the event is set at the first check of the loop,
  \<^verbatim>\<open>execute_agent\<close> and the run it starts end without a round of the loop. The
  result stored has the output \<^verbatim>\<open>Execution stopped at iteration 0\<close>, no error text and
  iteration count 0, and it is a success: \<^verbatim>\<open>_execute_agent_code\<close> returns the output,
  so line 107 sets the flag. The agent is left in the status \<^verbatim>\<open>completed\<close>.
\<close>

theorem cancelled_before_first_step:
  assumes "\<not> is_running agent" and "strip (code agent) \<noteq> []"
    and "0 < max_iterations (config agent)" and "stop_event 0"
    and "execute_and_run now stop_event work env agent callback obs t
           = (r, env1, agent1, obs1, t1)"
  shows "get_result env1 (ident agent)
         = Some \<lparr>agent_id = ident agent, success = True,
                 output_text = Some ''Execution stopped at iteration 0'', error = None,
                 duration = now (t + 5) - now (t + 2), iterations = 0\<rparr>
     \<and> status (state agent1) = ''completed''
     \<and> iteration_count (state agent1) = 0
     \<and> t1 = t + 6"
proof -
  from execute_and_run_idle [OF assms(1,5)] obtain env0 agent0 where
    run: "run_agent now stop_event work env0 agent0 callback obs (t + 2)
                = (env1, agent1, obs1, t1)"
    and c: "iteration_count (state agent0) = 0"
    and k: "ident agent0 = ident agent" "code agent0 = code agent"
      "config agent0 = config agent"
    by blast
  from assms(2,3) k have "strip (code agent0) \<noteq> []" "0 < max_iterations (config agent0)"
    by simp_all
  with assms(4)
  have "execute_agent_code now stop_event work agent0 (Suc (t + 2))
          = (Inr ''Execution stopped at iteration 0'', agent0, Suc (t + 2))"
    by (simp add: execute_agent_code_stopped_first)
  from run_agent_result [OF run this] c k show ?thesis
    by (simp add: eval_nat_numeral)
qed

theorem cancelled_before_first_step_witness:
  "\<not> is_running (demo_agent ''x'' 5) \<and> strip (code (demo_agent ''x'' 5)) \<noteq> []
   \<and> 0 < max_iterations (config (demo_agent ''x'' 5)) \<and> set_from 0 0
   \<and> get_result (fst (snd
        (execute_and_run tick_clock (set_from 0) no_fault ExecutionEnvironment_init
           (demo_agent ''x'' 5) no_callback () 0))) ''a1''
       = Some \<lparr>agent_id = ''a1'', success = True,
               output_text = Some ''Execution stopped at iteration 0'',
               error = None, duration = 3, iterations = 0\<rparr>"
proof -
  let ?run = "execute_and_run tick_clock (set_from 0) no_fault ExecutionEnvironment_init
                (demo_agent ''x'' 5) no_callback () 0"
  have p: "?run = (fst ?run, fst (snd ?run), fst (snd (snd ?run)), fst (snd (snd (snd ?run))),
                   snd (snd (snd (snd ?run))))"
    by (simp only: prod.collapse)
  have i: "\<not> is_running (demo_agent ''x'' 5)" by (rule demo_agent_idle)
  have b: "strip (code (demo_agent ''x'' 5)) \<noteq> []"
    by (simp add: demo_agent_def strip_def isspace_def)
  have n: "0 < max_iterations (config (demo_agent ''x'' 5))" by (simp add: demo_agent_def)
  have s: "set_from 0 0" by (simp add: set_from_def)
  from cancelled_before_first_step [OF i b n s p] i b n s show ?thesis
    by (simp add: demo_agent_def tick_clock_def)
qed

text \<open>
  The statement with a failure in place of the success is false: the run of an agent
  with code and the ceiling 5, stopped at the first check, stores a success.
\<close>

theorem cancelled_before_first_step_counterexample:
  "\<not> is_running (demo_agent ''x'' 5) \<and> set_from 0 0
   \<and> success (the (get_result (fst (snd
        (execute_and_run tick_clock (set_from 0) no_fault ExecutionEnvironment_init
           (demo_agent ''x'' 5) no_callback () 0))) ''a1'')) \<noteq> False"
  by (simp add: run_defs upt_rec)

text \<open>
  Claim C4, amended. When the code of the agent is not blank, the event is not set at the
  first \<open>k\<close> checks and the work raises for the first time in round \<open>k\<close> of the loop
  (\<open>k\<close> at least 1 and at most the ceiling) with the message \<open>m\<close>, the result stored is a
  failure with the error text \<open>m\<close>, without output and with the iteration count 0 that it
  was made with: lines 117 to 125 do not copy the counter. The agent is left in the
  status \<^verbatim>\<open>error\<close> with the error message \<open>m\<close>, and its own counter is \<open>k\<close>, set at
  line 163 before the work of the round.
\<close>

theorem fault_on_step:
  assumes "strip (code agent) \<noteq> []" and "0 < k"
    and "int k \<le> max_iterations (config agent)"
    and "\<forall>i < k. \<not> stop_event i" and "\<forall>i < k - 1. work i = None"
    and "work (k - 1) = Some m"
    and "run_agent now stop_event work env agent callback obs t = (env1, agent1, obs1, t1)"
  shows "get_result env1 (ident agent)
         = Some \<lparr>agent_id = ident agent, success = False, output_text = None,
                 error = Some m, duration = now (t1 - 1) - now t, iterations = 0\<rparr>
     \<and> status (state agent1) = ''error''
     \<and> error_message (state agent1) = Some m
     \<and> iteration_count (state agent1) = int k"
proof -
  from execute_agent_code_fault [OF assms(1-6), of now "Suc t"] obtain agent0 where
    e: "execute_agent_code now stop_event work agent (Suc t) = (Inl m, agent0, Suc t + k)"
    and c: "iteration_count (state agent0) = int k"
    by blast
  from run_agent_result [OF assms(7) e] c show ?thesis by (simp add: eval_nat_numeral)
qed

theorem fault_on_step_witness:
  "strip (code (demo_agent ''x'' 5)) \<noteq> [] \<and> (0::nat) < 2
   \<and> int 2 \<le> max_iterations (config (demo_agent ''x'' 5))
   \<and> fault_at 1 ''boom'' (2 - 1) = Some ''boom''
   \<and> get_result (fst (run_agent tick_clock never_set (fault_at 1 ''boom'')
        ExecutionEnvironment_init (demo_agent ''x'' 5) no_callback () 0)) ''a1''
       = Some \<lparr>agent_id = ''a1'', success = False, output_text = None,
               error = Some ''boom'', duration = 5, iterations = 0\<rparr>
   \<and> iteration_count (state (fst (snd (run_agent tick_clock never_set (fault_at 1 ''boom'')
        ExecutionEnvironment_init (demo_agent ''x'' 5) no_callback () 0)))) = 2"
proof -
  let ?run = "run_agent tick_clock never_set (fault_at 1 ''boom'')
                ExecutionEnvironment_init (demo_agent ''x'' 5) no_callback () 0"
  have p: "?run = (fst ?run, fst (snd ?run), fst (snd (snd ?run)), snd (snd (snd ?run)))"
    by (simp only: prod.collapse)
  have b: "strip (code (demo_agent ''x'' 5)) \<noteq> []"
    by (simp add: demo_agent_def strip_def isspace_def)
  have k: "(0::nat) < 2" by simp
  have n: "int 2 \<le> max_iterations (config (demo_agent ''x'' 5))"
    by (simp add: demo_agent_def)
  have s: "\<forall>i < (2::nat). \<not> never_set i" by (simp add: never_set_def)
  have w: "\<forall>i < (2::nat) - 1. fault_at 1 ''boom'' i = None" by (simp add: fault_at_def)
  have f: "fault_at 1 ''boom'' (2 - 1) = Some ''boom''" by (simp add: fault_at_def)
  have t: "snd (snd (snd ?run)) = 6" by (simp add: run_defs upt_rec)
  from fault_on_step [OF b k n s w f p] b n f t show ?thesis
    by (simp add: demo_agent_def tick_clock_def)
qed

text \<open>
  The iteration count of the result is not \<open>k - 1\<close>: when the work raises in round 2,
  it is 0.
\<close>

theorem fault_on_step_counterexample:
  "fault_at 1 ''boom'' 0 = None \<and> fault_at 1 ''boom'' 1 = Some ''boom''
   \<and> iterations (the (get_result (fst (run_agent tick_clock never_set (fault_at 1 ''boom'')
        ExecutionEnvironment_init (demo_agent ''x'' 5) no_callback () 0)) ''a1'')) \<noteq> 2 - 1"
  by (simp add: run_defs upt_rec)

subsection \<open>The iteration counter within a run\<close>

lemma for_loop_counter_bound:
  "iteration_count (state agent) \<le> c \<Longrightarrow> \<forall>i \<in> set xs. int i + 1 \<le> c \<Longrightarrow>
     iteration_count (state (fst (snd (for_loop now stop work xs agent t)))) \<le> c"
proof (induction xs arbitrary: agent t)
  case Nil
  then show ?case by simp
next
  case (Cons i rest)
  show ?case
  proof (cases "stop i")
    case True
    with Cons.prems show ?thesis by simp
  next
    case False
    let ?a = "fst (update_state now [Iteration_count (int i + 1)] agent t)"
    from Cons.prems have a: "iteration_count (state ?a) \<le> c"
      by (simp add: update_state_def)
    from Cons.prems have "\<forall>j \<in> set rest. int j + 1 \<le> c" by simp
    from Cons.IH [OF a this, of "Suc t"] a False show ?thesis
      by (cases "work i") (simp_all add: update_state_def)
  qed
qed

lemma counter_after_mono:
  assumes "iteration_count (state agent) = 0" and "m \<le> m'"
  shows "counter_after now stop work agent t m \<le> counter_after now stop work agent t m'"
proof -
  let ?n = "nat (max_iterations (config agent))"
  let ?a = "min m ?n" and ?b = "min m' ?n"
  from assms(2) have ab: "?a \<le> ?b" by simp
  then have sp: "[0..<?b] = [0..<?a] @ [?a..<?b]"
    using upt_add_eq_append [of 0 ?a "?b - ?a"] by simp
  obtain ro a1 t1 where l: "for_loop now stop work [0..<?a] agent t = (ro, a1, t1)"
    by (metis prod_cases3)
  have bound: "iteration_count (state a1) \<le> int ?a"
  proof -
    have "iteration_count (state agent) \<le> int ?a" using assms(1) by simp
    moreover have "\<forall>i \<in> set [0..<?a]. int i + 1 \<le> int ?a" by auto
    ultimately have "iteration_count (state (fst (snd (for_loop now stop work [0..<?a] agent t))))
        \<le> int ?a"
      by (rule for_loop_counter_bound)
    with l show ?thesis by simp
  qed
  show ?thesis
  proof (cases ro)
    case (Some r)
    with l show ?thesis
      by (simp add: counter_after_def take_upt_min sp for_loop_append del: upt.simps)
  next
    case None
    have "iteration_count (state a1)
        \<le> iteration_count (state (fst (snd (for_loop now stop work [?a..<?b] a1 t1))))"
    proof (rule for_loop_counter_mono)
      show "sorted [?a..<?b]" by simp
      show "\<forall>i \<in> set [?a..<?b]. iteration_count (state a1) \<le> int i + 1"
        using bound by auto
    qed
    with None l show ?thesis
      by (simp add: counter_after_def take_upt_min sp for_loop_append del: upt.simps)
  qed
qed

lemma counter_after_run:
  assumes "run_agent now stop work env agent cb obs t = (env1, agent1, obs1, t1)"
  shows "iteration_count (state agent1)
     = (if strip (code agent) = [] then iteration_count (state agent)
        else counter_after now stop work agent (Suc t) (nat (max_iterations (config agent))))"
proof -
  obtain out agent0 t0 where
    e: "execute_agent_code now stop work agent (Suc t) = (out, agent0, t0)"
    by (metis prod_cases3)
  from run_agent_result [OF assms e]
  have c: "iteration_count (state agent1) = iteration_count (state agent0)" by simp
  show ?thesis
  proof (cases "strip (code agent) = []")
    case True
    with e c show ?thesis by (simp add: execute_agent_code_def)
  next
    case False
    obtain ro a2 t2 where
      l: "for_loop now stop work [0..<nat (max_iterations (config agent))] agent (Suc t)
            = (ro, a2, t2)"
      by (metis prod_cases3)
    with e False have "agent0 = a2"
      by (cases ro) (simp_all add: execute_agent_code_def Let_def)
    with c l False show ?thesis by (simp add: counter_after_def)
  qed
qed

text \<open>
  Claim C9. \<^verbatim>\<open>execute_agent\<close> on an agent that is not running sets the iteration
  counter to zero. In the run that follows, the counter after \<open>m\<close> rounds of the loop is
  at most the counter after \<open>m'\<close> rounds when \<open>m\<close> is at most \<open>m'\<close>, whatever the event
  and the work do; it starts at zero, and \<^verbatim>\<open>_run_agent\<close> leaves the agent with the
  counter that the loop ends with.
\<close>

theorem iteration_counter_monotone:
  assumes "\<not> is_running agent"
    and "execute_agent now env agent t = (r, env1, agent1, t1)"
    and "m \<le> m'"
    and "run_agent now stop_event work env1 agent1 callback obs t1 = (env2, agent2, obs2, t2)"
  shows "iteration_count (state agent1) = 0
     \<and> counter_after now stop_event work agent1 (Suc t1) 0 = 0
     \<and> counter_after now stop_event work agent1 (Suc t1) m
         \<le> counter_after now stop_event work agent1 (Suc t1) m'
     \<and> iteration_count (state agent2)
         = (if strip (code agent1) = [] then 0
            else counter_after now stop_event work agent1 (Suc t1)
                   (nat (max_iterations (config agent1))))"
proof -
  from assms(1,2) have z: "iteration_count (state agent1) = 0"
    by (auto simp: execute_agent_def update_state_def Let_def)
  then have "counter_after now stop_event work agent1 (Suc t1) 0 = 0"
    by (simp add: counter_after_def)
  moreover note counter_after_mono [OF z assms(3), of now stop_event work "Suc t1"]
  moreover from counter_after_run [OF assms(4)] z
  have "iteration_count (state agent2)
         = (if strip (code agent1) = [] then 0
            else counter_after now stop_event work agent1 (Suc t1)
                   (nat (max_iterations (config agent1))))" by simp
  ultimately show ?thesis using z by simp
qed

theorem iteration_counter_monotone_witness:
  "\<not> is_running (demo_agent ''x'' 5) \<and> (2::nat) \<le> 4
   \<and> iteration_count (state (fst (snd (snd
         (execute_agent tick_clock ExecutionEnvironment_init (demo_agent ''x'' 5) 0))))) = 0
   \<and> counter_after tick_clock never_set no_fault
         (fst (snd (snd (execute_agent tick_clock ExecutionEnvironment_init
                           (demo_agent ''x'' 5) 0)))) 3 2
       \<le> counter_after tick_clock never_set no_fault
           (fst (snd (snd (execute_agent tick_clock ExecutionEnvironment_init
                             (demo_agent ''x'' 5) 0)))) 3 4
   \<and> counter_after tick_clock never_set no_fault
         (fst (snd (snd (execute_agent tick_clock ExecutionEnvironment_init
                           (demo_agent ''x'' 5) 0)))) 3 2 = 2"
proof -
  let ?ex = "execute_agent tick_clock ExecutionEnvironment_init (demo_agent ''x'' 5) 0"
  let ?run = "run_agent tick_clock never_set no_fault (fst (snd ?ex)) (fst (snd (snd ?ex)))
                no_callback () (snd (snd (snd ?ex)))"
  have q: "?ex = (fst ?ex, fst (snd ?ex), fst (snd (snd ?ex)), snd (snd (snd ?ex)))"
    by (simp only: prod.collapse)
  have p: "?run = (fst ?run, fst (snd ?run), fst (snd (snd ?run)), snd (snd (snd ?run)))"
    by (simp only: prod.collapse)
  have i: "\<not> is_running (demo_agent ''x'' 5)" by (rule demo_agent_idle)
  have m: "(2::nat) \<le> 4" by simp
  have t: "snd (snd (snd ?ex)) = 2" by (simp add: run_defs)
  have v: "counter_after tick_clock never_set no_fault (fst (snd (snd ?ex))) 3 2 = 2"
    by (simp add: counter_after_def run_defs upt_rec)
  from iteration_counter_monotone [OF i q m p] i m t v show ?thesis
    by (simp add: eval_nat_numeral)
qed

subsection \<open>Stopping a run\<close>

lemma stop_agent_not_live:
  "running_agents env aid = None \<Longrightarrow> stop_agent join env aid = (Inr False, env)"
  by (simp add: stop_agent_def)

lemma stop_agent_timeout:
  assumes "running_agents env aid = Some th" and "stop_events env aid = Some b"
  shows "stop_agent join_timeout env aid
     = (Inr False,
        env\<lparr>stop_events := (stop_events env)(aid \<mapsto> True),
            logger := logger env @ [(WARNING, ''Agent '' @ aid @ '' did not stop gracefully'')]\<rparr>)"
  using assms by (simp add: stop_agent_def join_timeout_def log_msg_def)

lemma stop_agent_True:
  assumes "stop_agent join env aid = (Inr True, env1)"
  shows "running_agents env aid \<noteq> None \<and> running_agents env1 aid = None
     \<and> stop_events env1 aid = None
     \<and> \<not> snd (join (if stop_events env aid \<noteq> None
                       then env\<lparr>stop_events := (stop_events env)(aid \<mapsto> True)\<rparr> else env))"
  using assms
  by (auto simp: stop_agent_def Let_def log_msg_def split: if_splits prod.splits)

lemma stop_agent_unregistered:
  assumes "running_agents env aid \<noteq> None"
    and "join (if stop_events env aid \<noteq> None
               then env\<lparr>stop_events := (stop_events env)(aid \<mapsto> True)\<rparr> else env)
           = (env2, False)"
    and "running_agents env2 aid = None"
  shows "stop_agent join env aid = (Inl (KeyError aid), env2)"
  using assms by (simp add: stop_agent_def)

lemma stop_agent_unit:
  assumes "running_agents env (ident agent) \<noteq> None"
  shows "fst (stop_agent (join_unit now work agent callback obs t) env (ident agent))
     = Inl (KeyError (ident agent))"
proof -
  let ?env1 = "if stop_events env (ident agent) \<noteq> None
               then env\<lparr>stop_events := (stop_events env)(ident agent \<mapsto> True)\<rparr> else env"
  let ?run = "run_agent now (\<lambda>i. stop_events ?env1 (ident agent) = Some True) work ?env1 agent
                callback obs t"
  have p: "?run = (fst ?run, fst (snd ?run), fst (snd (snd ?run)), snd (snd (snd ?run)))"
    by (simp only: prod.collapse)
  from run_agent_env [OF p] have "running_agents (fst ?run) (ident agent) = None" by simp
  then have j: "join_unit now work agent callback obs t ?env1 = (fst ?run, False)"
    and n: "running_agents (fst ?run) (ident agent) = None"
    by (simp_all add: join_unit_def)
  have "stop_agent (join_unit now work agent callback obs t) env (ident agent)
      = (Inl (KeyError (ident agent)), fst ?run)"
    using assms j n by (rule stop_agent_unregistered)
  then show ?thesis by simp
qed

text \<open>
  Claim C3. \<^verbatim>\<open>stop_agent\<close> is to return \<^verbatim>\<open>False\<close> for an id without a live thread; for
  an id with one it is to set the event, wait up to five seconds, return \<^verbatim>\<open>True\<close> and
  take the thread out of the registry if the thread has ended, and return \<^verbatim>\<open>False\<close>
  with the thread still registered if it has not. The code does the first and the last
  (\<open>stop_agent_not_live\<close>, \<open>stop_agent_timeout\<close>). It does not return \<^verbatim>\<open>True\<close> when
  the worker ends within the wait: the worker has then removed its thread from the
  registry itself (line 134), and line 79 deletes the key without the test that line 80
  makes for the event, so the call raises \<^verbatim>\<open>KeyError\<close>. Here the agent \<^verbatim>\<open>a1\<close> with
  code and the ceiling 5 is started, and stopped before the first check of its loop: the
  thread is registered, the worker sees the event and ends (its result is stored under
  the id, and the join finds it not alive), and \<^verbatim>\<open>stop_agent\<close> raises.
\<close>

theorem stop_agent_raises_after_unit_ended:
  "running_agents
     (fst (snd (execute_agent tick_clock ExecutionEnvironment_init (demo_agent ''x'' 5) 0)))
     ''a1'' = Some \<lparr>thread_name = ''agent-a1'', started = True\<rparr>
   \<and> fst (stop_agent
          (join_unit tick_clock no_fault
             (fst (snd (snd (execute_agent tick_clock ExecutionEnvironment_init
                               (demo_agent ''x'' 5) 0))))
             no_callback () 2)
          (fst (snd (execute_agent tick_clock ExecutionEnvironment_init
                       (demo_agent ''x'' 5) 0)))
          ''a1'')
       = Inl (KeyError ''a1'')
   \<and> get_result
        (snd (stop_agent
           (join_unit tick_clock no_fault
              (fst (snd (snd (execute_agent tick_clock ExecutionEnvironment_init
                                (demo_agent ''x'' 5) 0))))
              no_callback () 2)
           (fst (snd (execute_agent tick_clock ExecutionEnvironment_init
                        (demo_agent ''x'' 5) 0)))
           ''a1''))
        ''a1''
       = Some \<lparr>agent_id = ''a1'', success = True,
               output_text = Some ''Execution stopped at iteration 0'', error = None,
               duration = 3, iterations = 0\<rparr>"
  by (simp add: stop_agent_def join_unit_def run_defs upt_rec)

end
